theory Spec2Isabelle
  imports Main "HOL-Library.Word"
begin

section \<open>Values of the editor API and of the domain models\<close>

text \<open>
  The file \<^verbatim>\<open>provider.ts\<close> adapts three domain models (reference search results, a call
  hierarchy, the navigation history) to the tree-data contract of the editor. The classes
  of the models and the editor API are declared outside this file; only the members that
  \<^verbatim>\<open>provider.ts\<close> reads are kept here.

  A JavaScript string is a sequence of UTF-16 code units and \<^verbatim>\<open>length\<close> counts them.
  Identifiers written as literals in the source (command names, context values, icon
  identifiers) are plain ASCII and are kept as \<^typ>\<open>string\<close>.
\<close>

type_synonym js_string = "16 word list"

type_synonym Uri = js_string

datatype Range = Range nat nat nat nat

record Location =
  loc_uri :: Uri
  loc_range :: Range

text \<open>
  \<^verbatim>\<open>ReferenceItem\<close> and \<^verbatim>\<open>FileItem\<close> point at each other (\<^verbatim>\<open>parent\<close>, \<^verbatim>\<open>results\<close>).
  The back reference is kept as a handle: the uri of the owning file.
\<close>

datatype ReferenceItem = ReferenceItem (location: Location) (parent: Uri)

datatype FileItem = FileItem (uri: Uri) (results: "ReferenceItem list")

text \<open>The symbol kinds of the editor API, in the order of their numeric values 0 to 25.\<close>

datatype SymbolKind =
    SymbolKind_File | SymbolKind_Module | SymbolKind_Namespace | SymbolKind_Package
  | SymbolKind_Class | SymbolKind_Method | SymbolKind_Property | SymbolKind_Field
  | SymbolKind_Constructor | SymbolKind_Enum | SymbolKind_Interface | SymbolKind_Function
  | SymbolKind_Variable | SymbolKind_Constant | SymbolKind_String | SymbolKind_Number
  | SymbolKind_Boolean | SymbolKind_Array | SymbolKind_Object | SymbolKind_Key
  | SymbolKind_Null | SymbolKind_EnumMember | SymbolKind_Struct | SymbolKind_Event
  | SymbolKind_Operator | SymbolKind_TypeParameter

text \<open>
  A TypeScript numeric enum is a number at run time; the icon table below is an object
  whose keys are these numbers.
\<close>

fun SymbolKind_value :: "SymbolKind \<Rightarrow> nat" where
  "SymbolKind_value SymbolKind_File = 0"
| "SymbolKind_value SymbolKind_Module = 1"
| "SymbolKind_value SymbolKind_Namespace = 2"
| "SymbolKind_value SymbolKind_Package = 3"
| "SymbolKind_value SymbolKind_Class = 4"
| "SymbolKind_value SymbolKind_Method = 5"
| "SymbolKind_value SymbolKind_Property = 6"
| "SymbolKind_value SymbolKind_Field = 7"
| "SymbolKind_value SymbolKind_Constructor = 8"
| "SymbolKind_value SymbolKind_Enum = 9"
| "SymbolKind_value SymbolKind_Interface = 10"
| "SymbolKind_value SymbolKind_Function = 11"
| "SymbolKind_value SymbolKind_Variable = 12"
| "SymbolKind_value SymbolKind_Constant = 13"
| "SymbolKind_value SymbolKind_String = 14"
| "SymbolKind_value SymbolKind_Number = 15"
| "SymbolKind_value SymbolKind_Boolean = 16"
| "SymbolKind_value SymbolKind_Array = 17"
| "SymbolKind_value SymbolKind_Object = 18"
| "SymbolKind_value SymbolKind_Key = 19"
| "SymbolKind_value SymbolKind_Null = 20"
| "SymbolKind_value SymbolKind_EnumMember = 21"
| "SymbolKind_value SymbolKind_Struct = 22"
| "SymbolKind_value SymbolKind_Event = 23"
| "SymbolKind_value SymbolKind_Operator = 24"
| "SymbolKind_value SymbolKind_TypeParameter = 25"

record CallHierarchyItem =
  name :: js_string
  detail :: "js_string option"
  kind :: nat

datatype CallItem = CallItem (item: CallHierarchyItem) (call_parent: "CallItem option")

record HistoryItem =
  label_h :: js_string
  description_h :: js_string

text \<open>The exported union \<^verbatim>\<open>TreeItem\<close> of line 177; \<^verbatim>\<open>instanceof\<close> reads the tag.\<close>

datatype TreeItem =
    FileElem FileItem
  | ReferenceElem ReferenceItem
  | HistoryElem HistoryItem
  | CallElem CallItem

text \<open>
  Faults. \<open>TypeError\<close> is the exception of a member access on \<^verbatim>\<open>undefined\<close>;
  \<open>Rejected\<close> is a promise of a collaborator that rejects; \<open>IllTyped\<close> marks a call with
  an element outside the parameter type of the adapter, which TypeScript rules out and
  whose outcome depends on classes declared elsewhere.
\<close>

datatype fault = TypeError | Rejected | IllTyped

text \<open>
  The models. \<open>model_ref\<close> and \<open>calls_ref\<close> are the identities of the model objects: an
  event of a model is told apart from the events of another model by them.
\<close>

record ReferencesModel =
  model_ref :: nat
  items :: "FileItem list"

record CallsModel =
  calls_ref :: nat
  roots :: "CallItem list"
  resolveCalls :: "CallItem \<Rightarrow> fault + CallItem list"

type_synonym History = "HistoryItem list"

datatype Model =
    Model_References ReferencesModel
  | Model_Calls CallsModel
  | Model_History History

subsection \<open>What the editor renders: \<^verbatim>\<open>vscode.TreeItem\<close>\<close>

datatype ThemeIcon = ThemeIcon string | ThemeIcon_File

datatype TreeItemCollapsibleState = CollapsibleState_None | Collapsed | Expanded

record TreeItemLabel =
  label_l :: js_string
  highlights :: "(nat \<times> nat) list"

text \<open>The argument of the constructor: a resource uri, a plain label, or a label with highlights.\<close>

datatype item_label = ResourceUri Uri | Label js_string | Label2 TreeItemLabel

datatype item_description = Description_true | Description js_string

record Command =
  command :: string
  title :: string
  arguments :: "TreeItem list"

record vscode_TreeItem =
  label :: item_label
  contextValue :: "string option"
  description :: "item_description option"
  iconPath :: "ThemeIcon option"
  item_command :: "Command option"
  collapsibleState :: TreeItemCollapsibleState

text \<open>\<^verbatim>\<open>new vscode.TreeItem(x)\<close>: everything but the label unset, not collapsible.\<close>

definition new_TreeItem :: "item_label \<Rightarrow> vscode_TreeItem" where
  "new_TreeItem l =
     \<lparr>label = l, contextValue = None, description = None, iconPath = None,
      item_command = None, collapsibleState = CollapsibleState_None\<rparr>"

record PreviewChunks =
  before :: js_string
  inside :: js_string
  after :: js_string

section \<open>The search-results adapter: \<^verbatim>\<open>ReferencesProvider\<close>\<close>

text \<open>
  Lines 28 to 56. \<^verbatim>\<open>FileItem.getDocument\<close> and \<^verbatim>\<open>getPreviewChunks\<close> live in the models
  module and are parameters; the document fetch is a promise and may reject.
\<close>

fun ReferencesProvider_getTreeItem ::
  "(Uri \<Rightarrow> fault + 'doc) \<Rightarrow> ('doc \<Rightarrow> Range \<Rightarrow> PreviewChunks) \<Rightarrow> TreeItem
     \<Rightarrow> fault + vscode_TreeItem" where
  "ReferencesProvider_getTreeItem getDocument getPreviewChunks (FileElem element) =
     Inr ((new_TreeItem (ResourceUri (uri element)))
       \<lparr>contextValue := Some ''file-item'',
        description := Some Description_true,
        iconPath := Some ThemeIcon_File,
        collapsibleState := Collapsed\<rparr>)"
| "ReferencesProvider_getTreeItem getDocument getPreviewChunks (ReferenceElem element) =
     (case getDocument (parent element) of
        Inl e \<Rightarrow> Inl e
      | Inr doc \<Rightarrow>
          (let chunks = getPreviewChunks doc (loc_range (location element));
               l = \<lparr>label_l = before chunks @ inside chunks @ after chunks,
                    highlights = [(length (before chunks),
                                   length (before chunks) + length (inside chunks))]\<rparr>
           in Inr ((new_TreeItem (Label2 l))
                \<lparr>collapsibleState := CollapsibleState_None,
                 contextValue := Some ''reference-item'',
                 item_command := Some \<lparr>command = ''references-view.show'',
                                        title = ''Open Reference'',
                                        arguments = [ReferenceElem element]\<rparr>\<rparr>)))"
| "ReferencesProvider_getTreeItem getDocument getPreviewChunks _ = Inl IllTyped"

text \<open>
  Lines 58 to 66. The function has no \<^verbatim>\<open>else\<close> branch: for an element that is not a
  \<^verbatim>\<open>FileItem\<close> it runs off its end and answers \<^verbatim>\<open>undefined\<close>, which is \<open>None\<close> here.
\<close>

fun ReferencesProvider_getChildren ::
  "ReferencesModel \<Rightarrow> TreeItem option \<Rightarrow> TreeItem list option" where
  "ReferencesProvider_getChildren m None = Some (map FileElem (items m))"
| "ReferencesProvider_getChildren m (Some (FileElem element)) =
     Some (map ReferenceElem (results element))"
| "ReferencesProvider_getChildren m (Some _) = None"

text \<open>
  Lines 68 to 70. The parent handle of a reference is resolved among the files of the model.
\<close>

fun ReferencesProvider_getParent :: "ReferencesModel \<Rightarrow> TreeItem \<Rightarrow> TreeItem option" where
  "ReferencesProvider_getParent m (ReferenceElem element) =
     map_option FileElem (find (\<lambda>f. uri f = parent element) (items m))"
| "ReferencesProvider_getParent m _ = None"

section \<open>The call-hierarchy adapter: \<^verbatim>\<open>CallItemDataProvider\<close>\<close>

text \<open>Lines 105 to 132: the object literal, as its list of entries.\<close>

definition themeIconIds :: "(nat \<times> string) list" where
  "themeIconIds =
    [(SymbolKind_value SymbolKind_File, ''symbol-file''),
     (SymbolKind_value SymbolKind_Module, ''symbol-module''),
     (SymbolKind_value SymbolKind_Namespace, ''symbol-namespace''),
     (SymbolKind_value SymbolKind_Package, ''symbol-package''),
     (SymbolKind_value SymbolKind_Class, ''symbol-class''),
     (SymbolKind_value SymbolKind_Method, ''symbol-method''),
     (SymbolKind_value SymbolKind_Property, ''symbol-property''),
     (SymbolKind_value SymbolKind_Field, ''symbol-field''),
     (SymbolKind_value SymbolKind_Constructor, ''symbol-constructor''),
     (SymbolKind_value SymbolKind_Enum, ''symbol-enum''),
     (SymbolKind_value SymbolKind_Interface, ''symbol-interface''),
     (SymbolKind_value SymbolKind_Function, ''symbol-function''),
     (SymbolKind_value SymbolKind_Variable, ''symbol-variable''),
     (SymbolKind_value SymbolKind_Constant, ''symbol-constant''),
     (SymbolKind_value SymbolKind_String, ''symbol-string''),
     (SymbolKind_value SymbolKind_Number, ''symbol-number''),
     (SymbolKind_value SymbolKind_Boolean, ''symbol-boolean''),
     (SymbolKind_value SymbolKind_Array, ''symbol-array''),
     (SymbolKind_value SymbolKind_Object, ''symbol-object''),
     (SymbolKind_value SymbolKind_Key, ''symbol-key''),
     (SymbolKind_value SymbolKind_Null, ''symbol-null''),
     (SymbolKind_value SymbolKind_EnumMember, ''symbol-enum-member''),
     (SymbolKind_value SymbolKind_Struct, ''symbol-struct''),
     (SymbolKind_value SymbolKind_Event, ''symbol-event''),
     (SymbolKind_value SymbolKind_Operator, ''symbol-operator''),
     (SymbolKind_value SymbolKind_TypeParameter, ''symbol-type-parameter'')]"

text \<open>
  Lines 134 to 138. \<^verbatim>\<open>id && new ThemeIcon(id)\<close> builds the icon when the identifier is
  truthy: a missing key gives \<^verbatim>\<open>undefined\<close> and an empty string is falsy, both no icon.
\<close>

definition getThemeIcon :: "nat \<Rightarrow> ThemeIcon option" where
  "getThemeIcon k =
     (case map_of themeIconIds k of
        None \<Rightarrow> None
      | Some icon_id \<Rightarrow> if icon_id = [] then None else Some (ThemeIcon icon_id))"

text \<open>Lines 82 to 91.\<close>

fun CallItemDataProvider_getTreeItem :: "TreeItem \<Rightarrow> fault + vscode_TreeItem" where
  "CallItemDataProvider_getTreeItem (CallElem element) =
     Inr ((new_TreeItem (Label (name (item element))))
       \<lparr>description := map_option Description (detail (item element)),
        contextValue := Some ''call-item'',
        iconPath := getThemeIcon (kind (item element)),
        item_command := Some \<lparr>command = ''references-view.show'', title = ''Open Call'',
                               arguments = [CallElem element]\<rparr>,
        collapsibleState := Collapsed\<rparr>)"
| "CallItemDataProvider_getTreeItem _ = Inl IllTyped"

text \<open>Lines 93 to 99.\<close>

fun CallItemDataProvider_getChildren ::
  "CallsModel \<Rightarrow> TreeItem option \<Rightarrow> fault + TreeItem list option" where
  "CallItemDataProvider_getChildren m None = Inr (Some (map CallElem (roots m)))"
| "CallItemDataProvider_getChildren m (Some (CallElem element)) =
     (case resolveCalls m element of
        Inl e \<Rightarrow> Inl e
      | Inr cs \<Rightarrow> Inr (Some (map CallElem cs)))"
| "CallItemDataProvider_getChildren m (Some _) = Inl IllTyped"

text \<open>Lines 101 to 103.\<close>

fun CallItemDataProvider_getParent :: "TreeItem \<Rightarrow> fault + TreeItem option" where
  "CallItemDataProvider_getParent (CallElem element) =
     Inr (map_option CallElem (call_parent element))"
| "CallItemDataProvider_getParent _ = Inl IllTyped"

section \<open>The history adapter: \<^verbatim>\<open>HistoryDataProvider\<close>\<close>

text \<open>Lines 148 to 165.\<close>

fun HistoryDataProvider_getTreeItem :: "TreeItem \<Rightarrow> fault + vscode_TreeItem" where
  "HistoryDataProvider_getTreeItem (HistoryElem element) =
     Inr ((new_TreeItem (Label (label_h element)))
       \<lparr>description := Some (Description (description_h element)),
        item_command := Some \<lparr>command = ''references-view.show'', title = ''Show'',
                               arguments = [HistoryElem element]\<rparr>,
        collapsibleState := CollapsibleState_None,
        contextValue := Some ''history-item''\<rparr>)"
| "HistoryDataProvider_getTreeItem _ = Inl IllTyped"

text \<open>
  Lines 167 to 173. Both methods declare no parameter: whatever element the caller
  passes is dropped, and the answer is a copy of the whole history, or \<^verbatim>\<open>undefined\<close>.
\<close>

definition HistoryDataProvider_getChildren :: "History \<Rightarrow> TreeItem option \<Rightarrow> TreeItem list option" where
  "HistoryDataProvider_getChildren history element = Some (map HistoryElem history)"

definition HistoryDataProvider_getParent :: "TreeItem \<Rightarrow> TreeItem option" where
  "HistoryDataProvider_getParent element = None"

section \<open>Events\<close>

text \<open>
  A change event carries \<^verbatim>\<open>undefined\<close> (refresh everything), an element of the tree, or
  any other value (the references model fires with itself as payload, for one).
\<close>

datatype payload = Undefined | Elem TreeItem | Other nat

text \<open>
  \<^verbatim>\<open>vscode.EventEmitter\<close> belongs to the editor API. Its contract: \<^verbatim>\<open>event(listener)\<close>
  registers the listener and hands back a disposable that removes it again; \<^verbatim>\<open>fire(e)\<close>
  calls the registered listeners in order; \<^verbatim>\<open>dispose()\<close> drops all of them for good,
  and a disposed emitter registers nothing any more.
  A listener is stored with the number of its registration, which is what its disposable
  holds. \<open>ident\<close> is the identity of the emitter object.
\<close>

record 'cb EventEmitter =
  ident :: nat
  listeners :: "(nat \<times> 'cb) list"
  disposed :: bool

definition new_EventEmitter :: "nat \<Rightarrow> 'cb EventEmitter" where
  "new_EventEmitter i = \<lparr>ident = i, listeners = [], disposed = False\<rparr>"

definition subscribe :: "nat \<Rightarrow> 'cb \<Rightarrow> 'cb EventEmitter \<Rightarrow> 'cb EventEmitter" where
  "subscribe s cb em =
     (if disposed em then em else em\<lparr>listeners := listeners em @ [(s, cb)]\<rparr>)"

definition unsubscribe :: "nat \<Rightarrow> 'cb EventEmitter \<Rightarrow> 'cb EventEmitter" where
  "unsubscribe s em = em\<lparr>listeners := filter (\<lambda>l. fst l \<noteq> s) (listeners em)\<rparr>"

definition EventEmitter_dispose :: "'cb EventEmitter \<Rightarrow> 'cb EventEmitter" where
  "EventEmitter_dispose em = em\<lparr>listeners := [], disposed := True\<rparr>"

section \<open>The objects: adapters, the wrapper, the store\<close>

text \<open>
  The only listener this file ever registers on an adapter's \<^verbatim>\<open>onDidChangeTreeData\<close> is
  the arrow function of line 207, \<^verbatim>\<open>e => this._onDidChange.fire(e)\<close>.
\<close>

datatype wrapper_listener = Forward_to_onDidChange

text \<open>
  An adapter object with its private fields: the model, the emitter and, for the
  search-results adapter, \<^verbatim>\<open>_modelListener\<close> (the number of its registration on the model).
\<close>

datatype Provider =
    ReferencesProvider ReferencesModel "wrapper_listener EventEmitter" nat
  | CallItemDataProvider CallsModel "wrapper_listener EventEmitter"
  | HistoryDataProvider History "wrapper_listener EventEmitter"

fun onDidChangeTreeData :: "Provider \<Rightarrow> wrapper_listener EventEmitter" where
  "onDidChangeTreeData (ReferencesProvider m em l) = em"
| "onDidChangeTreeData (CallItemDataProvider m em) = em"
| "onDidChangeTreeData (HistoryDataProvider h em) = em"

fun map_emitter ::
  "(wrapper_listener EventEmitter \<Rightarrow> wrapper_listener EventEmitter) \<Rightarrow> Provider \<Rightarrow> Provider" where
  "map_emitter f (ReferencesProvider m em l) = ReferencesProvider m (f em) l"
| "map_emitter f (CallItemDataProvider m em) = CallItemDataProvider m (f em)"
| "map_emitter f (HistoryDataProvider h em) = HistoryDataProvider h (f em)"

text \<open>
  \<^verbatim>\<open>typeof provider.dispose === 'function'\<close> (line 193): of the three classes only
  \<^verbatim>\<open>ReferencesProvider\<close> declares \<^verbatim>\<open>dispose\<close>.
\<close>

fun has_dispose :: "Provider \<Rightarrow> bool" where
  "has_dispose (ReferencesProvider m em l) = True"
| "has_dispose (CallItemDataProvider m em) = False"
| "has_dispose (HistoryDataProvider h em) = False"

text \<open>
  The wrapper of lines 179 to 221. \<open>provider\<close> is a reference into the store;
  \<open>providerListener\<close> is the disposable of line 207 (the adapter it was registered on and
  the number of the registration); the listeners of \<open>onDidChange\<close> are the callbacks of
  the editor's tree view, opaque here.
\<close>

record TreeDataProviderWrapper =
  provider :: "nat option"
  providerListener :: "(nat \<times> nat) option"
  onDidChange :: "nat EventEmitter"

text \<open>
  The store. Adapters are objects with identity, since a listener registered on a model
  keeps the adapter that registered it alive and reachable. \<open>model_listeners\<close> is the
  table of the listeners that adapters have registered on change events of models: an
  entry \<open>(s, m, p)\<close> is registration \<open>s\<close>, on the event of the model object \<open>m\<close>, of the
  arrow function of line 20 closed over the adapter \<open>p\<close>. No other line of the file
  registers a listener on a model.
\<close>

record world =
  next_id :: nat
  wrapper :: TreeDataProviderWrapper
  providers :: "nat \<Rightarrow> Provider option"
  model_listeners :: "(nat \<times> nat \<times> nat) list"

text \<open>\<^verbatim>\<open>new TreeDataProviderWrapper()\<close>: lines 181 to 183.\<close>

definition init :: world where
  "init =
     \<lparr>next_id = 1,
      wrapper = \<lparr>provider = None, providerListener = None, onDidChange = new_EventEmitter 0\<rparr>,
      providers = (\<lambda>p. None),
      model_listeners = []\<rparr>"

text \<open>The tree view registers a callback \<open>h\<close> on \<^verbatim>\<open>wrapper.onDidChangeTreeData\<close> (line 185).\<close>

definition host_subscribe :: "nat \<Rightarrow> world \<Rightarrow> world" where
  "host_subscribe h w =
     w\<lparr>next_id := next_id w + 1,
       wrapper := (wrapper w)\<lparr>onDidChange := subscribe (next_id w) h (onDidChange (wrapper w))\<rparr>\<rparr>"

subsection \<open>What can be observed\<close>

datatype action =
    Dispose_providerListener nat
  | Dispose_provider nat
  | New_provider nat
  | Subscribe_model nat nat
  | Fire nat payload
  | Notify nat payload
  | Subscribe_provider nat

text \<open>\<^verbatim>\<open>this._onDidChange.fire(e)\<close> on the wrapper: each callback of the tree view gets \<open>e\<close>.\<close>

definition fire_onDidChange :: "world \<Rightarrow> payload \<Rightarrow> action list" where
  "fire_onDidChange w e =
     Fire (ident (onDidChange (wrapper w))) e
       # map (\<lambda>l. Notify (snd l) e) (listeners (onDidChange (wrapper w)))"

text \<open>
  \<^verbatim>\<open>fire(e)\<close> on the emitter of the adapter \<open>p\<close>: each registered listener is the arrow
  function of line 207 and fires the wrapper's emitter with the same \<open>e\<close>.
\<close>

definition fire_provider :: "world \<Rightarrow> nat \<Rightarrow> payload \<Rightarrow> action list" where
  "fire_provider w p e =
     (case providers w p of
        None \<Rightarrow> []
      | Some prov \<Rightarrow>
          Fire (ident (onDidChangeTreeData prov)) e
            # concat (map (\<lambda>l. fire_onDidChange w e) (listeners (onDidChangeTreeData prov))))"

text \<open>Line 20: \<^verbatim>\<open>e => this._onDidChangeTreeData.fire(e instanceof FileItem ? e : undefined)\<close>.\<close>

fun instanceof_FileItem :: "payload \<Rightarrow> bool" where
  "instanceof_FileItem (Elem (FileElem f)) = True"
| "instanceof_FileItem _ = False"

definition modelListener :: "world \<Rightarrow> nat \<Rightarrow> payload \<Rightarrow> action list" where
  "modelListener w p e = fire_provider w p (if instanceof_FileItem e then e else Undefined)"

text \<open>
  The model object \<open>m\<close> fires its change event with payload \<open>e\<close>: the listeners
  registered on that event run in order.
\<close>

definition model_fire :: "world \<Rightarrow> nat \<Rightarrow> payload \<Rightarrow> action list" where
  "model_fire w m e =
     concat (map (\<lambda>l. modelListener w (snd (snd l)) e)
                 (filter (\<lambda>l. fst (snd l) = m) (model_listeners w)))"

section \<open>The wrapper: \<^verbatim>\<open>TreeDataProviderWrapper\<close>\<close>

text \<open>Lines 188 to 191.\<close>

definition release_providerListener :: "world \<Rightarrow> world \<times> action list" where
  "release_providerListener w =
     (case providerListener (wrapper w) of
        None \<Rightarrow> (w, [])
      | Some (p, s) \<Rightarrow>
          (w\<lparr>providers := (providers w)(p := map_option (map_emitter (unsubscribe s)) (providers w p)),
             wrapper := (wrapper w)\<lparr>providerListener := None\<rparr>\<rparr>,
           [Dispose_providerListener p]))"

text \<open>Lines 23 to 26, on the adapter \<open>p\<close>.\<close>

definition ReferencesProvider_dispose :: "nat \<Rightarrow> world \<Rightarrow> world" where
  "ReferencesProvider_dispose p w =
     (case providers w p of
        Some (ReferencesProvider m em l) \<Rightarrow>
          w\<lparr>providers := (providers w)(p \<mapsto> ReferencesProvider m (EventEmitter_dispose em) l),
            model_listeners := filter (\<lambda>x. fst x \<noteq> l) (model_listeners w)\<rparr>
      | _ \<Rightarrow> w)"

text \<open>Lines 193 to 196.\<close>

definition dispose_provider :: "world \<Rightarrow> world \<times> action list" where
  "dispose_provider w =
     (case provider (wrapper w) of
        None \<Rightarrow> (w, [])
      | Some p \<Rightarrow>
          (case providers w p of
             None \<Rightarrow> (w, [])
           | Some prov \<Rightarrow>
               if has_dispose prov
               then (let w' = ReferencesProvider_dispose p w
                     in (w'\<lparr>wrapper := (wrapper w')\<lparr>provider := None\<rparr>\<rparr>, [Dispose_provider p]))
               else (w, [])))"

text \<open>
  Lines 198 to 204, with the constructors they call (lines 12 to 21, 75 to 80, 143 to 146).
  The new adapter gets the next free reference, its emitter the one after; the
  search-results adapter registers its listener on the model.
\<close>

fun construct_provider :: "Model \<Rightarrow> world \<Rightarrow> world \<times> action list" where
  "construct_provider (Model_References model) w =
     (let p = next_id w; s = next_id w + 2
      in (w\<lparr>next_id := next_id w + 3,
            providers := (providers w)(p \<mapsto> ReferencesProvider model (new_EventEmitter (p + 1)) s),
            model_listeners := model_listeners w @ [(s, model_ref model, p)],
            wrapper := (wrapper w)\<lparr>provider := Some p\<rparr>\<rparr>,
          [New_provider p, Subscribe_model (model_ref model) p]))"
| "construct_provider (Model_Calls model) w =
     (let p = next_id w
      in (w\<lparr>next_id := next_id w + 2,
            providers := (providers w)(p \<mapsto> CallItemDataProvider model (new_EventEmitter (p + 1))),
            wrapper := (wrapper w)\<lparr>provider := Some p\<rparr>\<rparr>,
          [New_provider p]))"
| "construct_provider (Model_History model) w =
     (let p = next_id w
      in (w\<lparr>next_id := next_id w + 2,
            providers := (providers w)(p \<mapsto> HistoryDataProvider model (new_EventEmitter (p + 1))),
            wrapper := (wrapper w)\<lparr>provider := Some p\<rparr>\<rparr>,
          [New_provider p]))"

text \<open>Line 206: \<^verbatim>\<open>this._onDidChange.fire()\<close>, no argument.\<close>

definition fire_refresh :: "world \<Rightarrow> world \<times> action list" where
  "fire_refresh w = (w, fire_onDidChange w Undefined)"

text \<open>
  Line 207. Lines 198 to 204 assign \<^verbatim>\<open>_provider\<close> on every path, so inside \<open>update\<close>
  the branch for an empty slot is never taken.
\<close>

definition subscribe_provider :: "world \<Rightarrow> world \<times> action list" where
  "subscribe_provider w =
     (case provider (wrapper w) of
        None \<Rightarrow> (w, [])
      | Some p \<Rightarrow>
          (w\<lparr>next_id := next_id w + 1,
             providers := (providers w)(p := map_option
                 (map_emitter (subscribe (next_id w) Forward_to_onDidChange)) (providers w p)),
             wrapper := (wrapper w)\<lparr>providerListener := Some (p, next_id w)\<rparr>\<rparr>,
           [Subscribe_provider p]))"

text \<open>
  Lines 187 to 208: the five statements in order. \<open>update_states\<close> lists the store before
  the call and after each statement.
\<close>

definition update_states :: "Model \<Rightarrow> world \<Rightarrow> world list" where
  "update_states model w0 =
     (let w1 = fst (release_providerListener w0);
          w2 = fst (dispose_provider w1);
          w3 = fst (construct_provider model w2);
          w4 = fst (fire_refresh w3);
          w5 = fst (subscribe_provider w4)
      in [w0, w1, w2, w3, w4, w5])"

definition update :: "Model \<Rightarrow> world \<Rightarrow> world \<times> action list" where
  "update model w0 =
     (let (w1, t1) = release_providerListener w0;
          (w2, t2) = dispose_provider w1;
          (w3, t3) = construct_provider model w2;
          (w4, t4) = fire_refresh w3;
          (w5, t5) = subscribe_provider w4
      in (w5, t1 @ t2 @ t3 @ t4 @ t5))"

subsection \<open>The queries, by dynamic dispatch on the class of the active adapter\<close>

fun Provider_getTreeItem ::
  "(Uri \<Rightarrow> fault + 'doc) \<Rightarrow> ('doc \<Rightarrow> Range \<Rightarrow> PreviewChunks) \<Rightarrow> Provider \<Rightarrow> TreeItem
     \<Rightarrow> fault + vscode_TreeItem" where
  "Provider_getTreeItem gd gp (ReferencesProvider m em l) element =
     ReferencesProvider_getTreeItem gd gp element"
| "Provider_getTreeItem gd gp (CallItemDataProvider m em) element =
     CallItemDataProvider_getTreeItem element"
| "Provider_getTreeItem gd gp (HistoryDataProvider h em) element =
     HistoryDataProvider_getTreeItem element"

fun Provider_getChildren :: "Provider \<Rightarrow> TreeItem option \<Rightarrow> fault + TreeItem list option" where
  "Provider_getChildren (ReferencesProvider m em l) element =
     Inr (ReferencesProvider_getChildren m element)"
| "Provider_getChildren (CallItemDataProvider m em) element =
     CallItemDataProvider_getChildren m element"
| "Provider_getChildren (HistoryDataProvider h em) element =
     Inr (HistoryDataProvider_getChildren h element)"

fun Provider_getParent :: "Provider \<Rightarrow> TreeItem \<Rightarrow> fault + TreeItem option" where
  "Provider_getParent (ReferencesProvider m em l) element =
     Inr (ReferencesProvider_getParent m element)"
| "Provider_getParent (CallItemDataProvider m em) element =
     CallItemDataProvider_getParent element"
| "Provider_getParent (HistoryDataProvider h em) element =
     Inr (HistoryDataProvider_getParent element)"

text \<open>
  Lines 210 to 212: \<^verbatim>\<open>this._provider!.getTreeItem(element)\<close>. The \<^verbatim>\<open>!\<close> is erased by the
  compiler; with \<^verbatim>\<open>_provider\<close> undefined the member access throws. (In the three queries
  the inner \<open>None\<close> is a reference to no object, which a JavaScript heap does not have
  and \<open>update\<close> never produces.)
\<close>

definition getTreeItem ::
  "(Uri \<Rightarrow> fault + 'doc) \<Rightarrow> ('doc \<Rightarrow> Range \<Rightarrow> PreviewChunks) \<Rightarrow> world \<Rightarrow> TreeItem
     \<Rightarrow> fault + vscode_TreeItem" where
  "getTreeItem gd gp w element =
     (case provider (wrapper w) of
        None \<Rightarrow> Inl TypeError
      | Some p \<Rightarrow>
          (case providers w p of
             None \<Rightarrow> Inl TypeError
           | Some prov \<Rightarrow> Provider_getTreeItem gd gp prov element))"

text \<open>
  Lines 214 to 220: \<^verbatim>\<open>this._provider?.getChildren(element)\<close> and the same for
  \<^verbatim>\<open>getParent\<close>. With \<^verbatim>\<open>_provider\<close> undefined the optional chain answers \<^verbatim>\<open>undefined\<close>.
\<close>

definition getChildren :: "world \<Rightarrow> TreeItem option \<Rightarrow> fault + TreeItem list option" where
  "getChildren w element =
     (case provider (wrapper w) of
        None \<Rightarrow> Inr None
      | Some p \<Rightarrow>
          (case providers w p of
             None \<Rightarrow> Inl TypeError
           | Some prov \<Rightarrow> Provider_getChildren prov element))"

definition getParent :: "world \<Rightarrow> TreeItem \<Rightarrow> fault + TreeItem option" where
  "getParent w element =
     (case provider (wrapper w) of
        None \<Rightarrow> Inr None
      | Some p \<Rightarrow>
          (case providers w p of
             None \<Rightarrow> Inl TypeError
           | Some prov \<Rightarrow> Provider_getParent prov element))"

section \<open>Observations and invariants\<close>

text \<open>The payloads fired on the emitter with identity \<open>i\<close>, in order.\<close>

fun fired_on :: "nat \<Rightarrow> action list \<Rightarrow> payload list" where
  "fired_on i [] = []"
| "fired_on i (Fire j e # t) = (if i = j then e # fired_on i t else fired_on i t)"
| "fired_on i (a # t) = fired_on i t"

text \<open>The identity of the emitter behind the change stream of the active adapter.\<close>

definition active_emitter :: "world \<Rightarrow> nat option" where
  "active_emitter w =
     (case provider (wrapper w) of
        None \<Rightarrow> None
      | Some p \<Rightarrow>
          (case providers w p of
             None \<Rightarrow> None
           | Some prov \<Rightarrow> Some (ident (onDidChangeTreeData prov))))"

text \<open>A sequence of calls of \<^verbatim>\<open>update\<close>, one per model, first to last.\<close>

primrec updates :: "Model list \<Rightarrow> world \<Rightarrow> world" where
  "updates [] w = w"
| "updates (model # ms) w = updates ms (fst (update model w))"

text \<open>The listeners registered on the change stream of the adapter \<open>p\<close>.\<close>

definition emitter_listeners :: "world \<Rightarrow> nat \<Rightarrow> (nat \<times> wrapper_listener) list" where
  "emitter_listeners w p =
     (case providers w p of None \<Rightarrow> [] | Some prov \<Rightarrow> listeners (onDidChangeTreeData prov))"

text \<open>
  What holds of the store between two calls. Only the adapter named by
  \<open>providerListener\<close> has a listener on its stream: it is the active adapter and the
  listener is the one the disposable stands for.
\<close>

definition listeners_ok :: "world \<Rightarrow> bool" where
  "listeners_ok w \<longleftrightarrow>
     (\<forall>p. emitter_listeners w p \<noteq> [] \<longrightarrow> (\<exists>s. providerListener (wrapper w) = Some (p, s))) \<and>
     (\<forall>p s. providerListener (wrapper w) = Some (p, s) \<longrightarrow>
        provider (wrapper w) = Some p \<and> emitter_listeners w p = [(s, Forward_to_onDidChange)])"

text \<open>
  At most one listener is registered on a model; it belongs to the active adapter, a
  search-results adapter whose \<^verbatim>\<open>_modelListener\<close> is that registration.
\<close>

definition model_listeners_ok :: "world \<Rightarrow> bool" where
  "model_listeners_ok w \<longleftrightarrow>
     length (model_listeners w) \<le> 1 \<and>
     (\<forall>x \<in> set (model_listeners w).
        provider (wrapper w) = Some (snd (snd x)) \<and>
        (\<exists>m em. providers w (snd (snd x)) = Some (ReferencesProvider m em (fst x)) \<and>
                 model_ref m = fst (snd x)))"

text \<open>The emitter of the wrapper is an object of its own, older than any object to come.\<close>

definition idents_ok :: "world \<Rightarrow> bool" where
  "idents_ok w \<longleftrightarrow>
     ident (onDidChange (wrapper w)) \<le> next_id w \<and>
     (\<forall>p prov. providers w p = Some prov \<longrightarrow>
        ident (onDidChangeTreeData prov) \<noteq> ident (onDidChange (wrapper w)))"

definition consistent :: "world \<Rightarrow> bool" where
  "consistent w \<longleftrightarrow> listeners_ok w \<and> model_listeners_ok w \<and> idents_ok w"

text \<open>Inside \<^verbatim>\<open>update\<close>, after line 191: no adapter has a listener on its stream.\<close>

definition quiet :: "world \<Rightarrow> bool" where
  "quiet w \<longleftrightarrow>
     providerListener (wrapper w) = None \<and> (\<forall>p. emitter_listeners w p = []) \<and>
     model_listeners_ok w \<and> idents_ok w"

text \<open>After line 204: an adapter is bound and its emitter is live.\<close>

definition bound_fresh :: "world \<Rightarrow> bool" where
  "bound_fresh w \<longleftrightarrow>
     (\<exists>p prov. provider (wrapper w) = Some p \<and> providers w p = Some prov \<and>
        \<not> disposed (onDidChangeTreeData prov))"

subsection \<open>Sample data\<close>

text \<open>A document \<^verbatim>\<open>foo()\<close> and a preview that cuts a single line at the columns of the range.\<close>

definition sample_getDocument :: "Uri \<Rightarrow> fault + js_string" where
  "sample_getDocument u = Inr [0x66, 0x6F, 0x6F, 0x28, 0x29]"

definition sample_getPreviewChunks :: "js_string \<Rightarrow> Range \<Rightarrow> PreviewChunks" where
  "sample_getPreviewChunks doc r =
     (case r of Range l1 c1 l2 c2 \<Rightarrow>
        \<lparr>before = take c1 doc, inside = take (c2 - c1) (drop c1 doc), after = drop c2 doc\<rparr>)"

definition sample_ReferenceItem :: ReferenceItem where
  "sample_ReferenceItem = ReferenceItem \<lparr>loc_uri = [0x61], loc_range = Range 0 0 0 3\<rparr> [0x61]"

definition sample_FileItem :: FileItem where
  "sample_FileItem = FileItem [0x61] [sample_ReferenceItem]"

definition sample_ReferencesModel :: ReferencesModel where
  "sample_ReferencesModel = \<lparr>model_ref = 50, items = [sample_FileItem]\<rparr>"

definition sample_CallItem :: CallItem where
  "sample_CallItem = CallItem \<lparr>name = [0x66], detail = None, kind = 11\<rparr> None"

definition sample_CallsModel :: CallsModel where
  "sample_CallsModel =
     \<lparr>calls_ref = 60, roots = [sample_CallItem], resolveCalls = (\<lambda>c. Inr [])\<rparr>"

definition sample_HistoryItem :: HistoryItem where
  "sample_HistoryItem = \<lparr>label_h = [0x48], description_h = []\<rparr>"

text \<open>A fresh wrapper with the tree view listening (callback 100).\<close>

definition sample_world :: world where
  "sample_world = host_subscribe 100 init"


section \<open>Properties of the adapters\<close>

text \<open>
  Claim C10. The icon table of the call-hierarchy adapter has 26 entries with distinct
  keys, and for every symbol kind, File through TypeParameter, it holds a non-empty icon
  identifier, so that the icon resolver answers a theme icon with that identifier and
  never takes the branch without an icon.
\<close>

theorem themeIconIds_cover_SymbolKind:
  "length themeIconIds = 26 \<and> distinct (map fst themeIconIds) \<and>
   (\<exists>icon_id. map_of themeIconIds (SymbolKind_value k) = Some icon_id \<and> icon_id \<noteq> [] \<and>
      getThemeIcon (SymbolKind_value k) = Some (ThemeIcon icon_id))"
  by (cases k) (simp_all add: themeIconIds_def getThemeIcon_def)

lemma getThemeIcon_unknown_kind: "getThemeIcon 26 = None"
  by (simp add: themeIconIds_def getThemeIcon_def)

text \<open>
  Claim C9. When the document of the owning file is fetched, the tree item of a reference
  has as label the text before the match, the match and the text after it, concatenated
  in this order; its single highlight runs from the length of the text before to that
  length plus the length of the match; and its command is \<^verbatim>\<open>references-view.show\<close> with
  the reference as the only argument.
\<close>

theorem ReferencesProvider_getTreeItem_reference:
  assumes "getDocument (parent element) = Inr doc"
  shows "\<exists>ti. ReferencesProvider_getTreeItem getDocument getPreviewChunks (ReferenceElem element) = Inr ti \<and>
    label ti = Label2
      \<lparr>label_l = before (getPreviewChunks doc (loc_range (location element)))
                   @ inside (getPreviewChunks doc (loc_range (location element)))
                   @ after (getPreviewChunks doc (loc_range (location element))),
       highlights = [(length (before (getPreviewChunks doc (loc_range (location element)))),
                      length (before (getPreviewChunks doc (loc_range (location element))))
                        + length (inside (getPreviewChunks doc (loc_range (location element)))))]\<rparr> \<and>
    item_command ti = Some \<lparr>command = ''references-view.show'', title = ''Open Reference'',
                             arguments = [ReferenceElem element]\<rparr>"
  using assms by (simp add: Let_def new_TreeItem_def)

theorem ReferencesProvider_getTreeItem_reference_witness:
  "sample_getDocument (parent sample_ReferenceItem) = Inr [0x66, 0x6F, 0x6F, 0x28, 0x29] \<and>
   (\<exists>ti. ReferencesProvider_getTreeItem sample_getDocument sample_getPreviewChunks
            (ReferenceElem sample_ReferenceItem) = Inr ti \<and>
      label ti = Label2 \<lparr>label_l = [0x66, 0x6F, 0x6F, 0x28, 0x29], highlights = [(0, 3)]\<rparr> \<and>
      item_command ti = Some \<lparr>command = ''references-view.show'', title = ''Open Reference'',
                               arguments = [ReferenceElem sample_ReferenceItem]\<rparr>)"
proof -
  have h: "sample_getDocument (parent sample_ReferenceItem) = Inr [0x66, 0x6F, 0x6F, 0x28, 0x29]"
    by (simp add: sample_getDocument_def)
  show ?thesis
    using h ReferencesProvider_getTreeItem_reference
      [of sample_getDocument sample_ReferenceItem "[0x66, 0x6F, 0x6F, 0x28, 0x29]"
          sample_getPreviewChunks]
    by (simp add: sample_getPreviewChunks_def sample_ReferenceItem_def)
qed

lemma ReferencesProvider_getTreeItem_rejected:
  "getDocument (parent element) = Inl e \<Longrightarrow>
   ReferencesProvider_getTreeItem getDocument getPreviewChunks (ReferenceElem element) = Inl e"
  by simp

text \<open>
  Claim C4, as the code has it. Asked for the children of a reference, the search-results
  adapter answers \<^verbatim>\<open>undefined\<close> without a fault. The history adapter drops the element it
  is asked about and answers the whole history, whatever the element; it does not fault.
\<close>

theorem terminal_children:
  "Provider_getChildren (ReferencesProvider m em l) (Some (ReferenceElem r)) = Inr None \<and>
   Provider_getChildren (HistoryDataProvider h em') (Some (HistoryElem x)) =
     Inr (Some (map HistoryElem h))"
  by (simp add: HistoryDataProvider_getChildren_def)

text \<open>
  Claim C4 as stated fails: with one item in the history, the children of that item are
  the history again, not an empty sequence.
\<close>

theorem history_children_counterexample:
  "Provider_getChildren (HistoryDataProvider [sample_HistoryItem] (new_EventEmitter 2))
     (Some (HistoryElem sample_HistoryItem)) = Inr (Some [HistoryElem sample_HistoryItem]) \<and>
   Provider_getChildren (HistoryDataProvider [sample_HistoryItem] (new_EventEmitter 2))
     (Some (HistoryElem sample_HistoryItem)) \<noteq> Inr (Some [])"
  by (simp add: HistoryDataProvider_getChildren_def)

section \<open>Properties of the wrapper\<close>

text \<open>
  Claim C3, as the code has it. With no adapter bound, \<^verbatim>\<open>getChildren\<close> and \<^verbatim>\<open>getParent\<close>
  answer \<^verbatim>\<open>undefined\<close> without a fault, and \<^verbatim>\<open>getTreeItem\<close> throws a TypeError.
\<close>

theorem unbound_queries:
  assumes "provider (wrapper w) = None"
  shows "getChildren w element = Inr None \<and> getParent w e = Inr None \<and>
         getTreeItem gd gp w e = Inl TypeError"
  using assms by (simp add: getChildren_def getParent_def getTreeItem_def)

theorem unbound_queries_witness:
  "provider (wrapper init) = None \<and>
   getChildren init (Some (HistoryElem sample_HistoryItem)) = Inr None \<and>
   getParent init (ReferenceElem sample_ReferenceItem) = Inr None \<and>
   getTreeItem sample_getDocument sample_getPreviewChunks init (ReferenceElem sample_ReferenceItem)
     = Inl TypeError"
proof -
  have h: "provider (wrapper init) = None" by (simp add: init_def)
  show ?thesis
    using h unbound_queries [OF h, of "Some (HistoryElem sample_HistoryItem)"
        "ReferenceElem sample_ReferenceItem" sample_getDocument sample_getPreviewChunks]
    by simp
qed

text \<open>
  Claim C3 as stated fails: on a wrapper that was never bound, \<^verbatim>\<open>getTreeItem\<close> faults.
\<close>

theorem unbound_getTreeItem_counterexample:
  "getTreeItem sample_getDocument sample_getPreviewChunks init (HistoryElem sample_HistoryItem)
     = Inl TypeError"
  by (simp add: getTreeItem_def init_def)

text \<open>
  Claim C8. After \<^verbatim>\<open>update\<close>, the active adapter is an object of the store whose class
  follows the class of the model: a search-results adapter for a references model, a
  call-hierarchy adapter for a calls model, a history adapter for anything else, each
  holding the model it was given.
\<close>

theorem update_selects_adapter:
  "\<exists>p prov. provider (wrapper (fst (update model w))) = Some p \<and>
     providers (fst (update model w)) p = Some prov \<and>
     (case model of
        Model_References m \<Rightarrow> \<exists>em l. prov = ReferencesProvider m em l
      | Model_Calls m \<Rightarrow> \<exists>em. prov = CallItemDataProvider m em
      | Model_History h \<Rightarrow> \<exists>em. prov = HistoryDataProvider h em)"
  by (cases model)
     (simp_all add: update_def Let_def split_beta fire_refresh_def subscribe_provider_def)

subsection \<open>The invariant of the store\<close>

lemma consistent_init: "consistent init"
  by (simp add: consistent_def init_def listeners_ok_def model_listeners_ok_def idents_ok_def
      emitter_listeners_def new_EventEmitter_def)

lemma consistent_host_subscribe: "consistent w \<Longrightarrow> consistent (host_subscribe h w)"
  by (auto simp add: consistent_def host_subscribe_def listeners_ok_def model_listeners_ok_def
      idents_ok_def emitter_listeners_def subscribe_def)

lemma ident_map_emitter_unsubscribe [simp]:
  "ident (onDidChangeTreeData (map_emitter (unsubscribe s) prov)) = ident (onDidChangeTreeData prov)"
  by (cases prov) (simp_all add: unsubscribe_def)

lemma listeners_map_emitter [simp]:
  "listeners (onDidChangeTreeData (map_emitter f prov)) = listeners (f (onDidChangeTreeData prov))"
  by (cases prov) simp_all

lemma ident_map_emitter_subscribe [simp]:
  "ident (onDidChangeTreeData (map_emitter (subscribe s cb) prov)) = ident (onDidChangeTreeData prov)"
  by (cases prov) (simp_all add: subscribe_def)

lemma release_quiet:
  assumes "consistent w"
  shows "quiet (fst (release_providerListener w))"
proof (cases "providerListener (wrapper w)")
  case None
  with assms show ?thesis
    by (auto simp add: consistent_def quiet_def release_providerListener_def listeners_ok_def)
next
  case (Some ps)
  obtain p s where ps: "ps = (p, s)" by (cases ps)
  from assms Some ps have act: "provider (wrapper w) = Some p"
    and ls: "emitter_listeners w p = [(s, Forward_to_onDidChange)]"
    and others: "\<And>q. q \<noteq> p \<Longrightarrow> emitter_listeners w q = []"
    by (auto simp add: consistent_def listeners_ok_def)
  from ls obtain prov where prov: "providers w p = Some prov"
    by (auto simp add: emitter_listeners_def split: option.splits)
  let ?w = "fst (release_providerListener w)"
  have w1: "?w = w\<lparr>providers := (providers w)(p \<mapsto> map_emitter (unsubscribe s) prov),
                   wrapper := (wrapper w)\<lparr>providerListener := None\<rparr>\<rparr>"
    using Some ps prov by (simp add: release_providerListener_def)
  have a: "providerListener (wrapper ?w) = None" by (simp add: w1)
  have b: "emitter_listeners ?w q = []" for q
    using ls others[of q] prov
    by (auto simp add: w1 emitter_listeners_def unsubscribe_def)
  have c: "model_listeners_ok ?w"
    using assms prov unfolding consistent_def model_listeners_ok_def w1
    by (cases prov) auto
  have d: "idents_ok ?w"
    using assms prov unfolding consistent_def idents_ok_def w1
    by auto
  show ?thesis unfolding quiet_def using a b c d by blast
qed

lemma dispose_quiet:
  assumes "quiet w"
  shows "quiet (fst (dispose_provider w)) \<and> model_listeners (fst (dispose_provider w)) = []"
proof (cases "provider (wrapper w)")
  case None
  with assms have "model_listeners w = []"
    by (cases "model_listeners w") (auto simp add: quiet_def model_listeners_ok_def)
  with assms None show ?thesis by (simp add: dispose_provider_def)
next
  case (Some p)
  show ?thesis
  proof (cases "providers w p")
    case None
    with assms Some have "model_listeners w = []"
      by (cases "model_listeners w") (auto simp add: quiet_def model_listeners_ok_def)
    with assms Some None show ?thesis by (simp add: dispose_provider_def)
  next
    case prov: (Some prov)
    show ?thesis
    proof (cases prov)
      case (ReferencesProvider m em l)
      let ?w = "fst (dispose_provider w)"
      have w2: "?w = w\<lparr>providers := (providers w)(p \<mapsto> ReferencesProvider m (EventEmitter_dispose em) l),
                       model_listeners := filter (\<lambda>x. fst x \<noteq> l) (model_listeners w),
                       wrapper := (wrapper w)\<lparr>provider := None\<rparr>\<rparr>"
        using Some prov ReferencesProvider
        by (simp add: dispose_provider_def ReferencesProvider_dispose_def Let_def)
      have "\<forall>x \<in> set (model_listeners w). fst x = l"
        using assms Some prov ReferencesProvider
        by (auto simp add: quiet_def model_listeners_ok_def)
      then have e: "filter (\<lambda>x. fst x \<noteq> l) (model_listeners w) = []"
        by (simp add: filter_empty_conv)
      have a: "providerListener (wrapper ?w) = None"
        using assms by (simp add: w2 quiet_def)
      have b: "emitter_listeners ?w q = []" for q
        using assms
        by (auto simp add: w2 quiet_def emitter_listeners_def EventEmitter_dispose_def)
      have c: "model_listeners_ok ?w"
        by (simp add: w2 e model_listeners_ok_def)
      have "ident (onDidChangeTreeData prov) \<noteq> ident (onDidChange (wrapper w))"
        using assms prov by (simp add: quiet_def idents_ok_def)
      then have d: "idents_ok ?w"
        using assms ReferencesProvider
        by (auto simp add: w2 quiet_def idents_ok_def EventEmitter_dispose_def)
      have "model_listeners ?w = []" by (simp add: w2 e)
      with a b c d show ?thesis unfolding quiet_def by blast
    next
      case (CallItemDataProvider m em)
      with assms Some prov have "model_listeners w = []"
        by (cases "model_listeners w") (auto simp add: quiet_def model_listeners_ok_def)
      with assms Some prov CallItemDataProvider show ?thesis
        by (simp add: dispose_provider_def)
    next
      case (HistoryDataProvider h em)
      with assms Some prov have "model_listeners w = []"
        by (cases "model_listeners w") (auto simp add: quiet_def model_listeners_ok_def)
      with assms Some prov HistoryDataProvider show ?thesis
        by (simp add: dispose_provider_def)
    qed
  qed
qed

lemma construct_quiet:
  assumes "quiet w" and "model_listeners w = []"
  shows "quiet (fst (construct_provider model w)) \<and> bound_fresh (fst (construct_provider model w))"
proof -
  have a: "providerListener (wrapper (fst (construct_provider model w))) = None"
    using assms by (cases model) (simp_all add: quiet_def Let_def)
  have b: "emitter_listeners (fst (construct_provider model w)) q = []" for q
    using assms
    by (cases model) (auto simp add: quiet_def Let_def emitter_listeners_def new_EventEmitter_def)
  have c: "model_listeners_ok (fst (construct_provider model w))"
    using assms by (cases model) (simp_all add: quiet_def model_listeners_ok_def Let_def)
  have d: "idents_ok (fst (construct_provider model w))"
    using assms
    by (cases model) (auto simp add: quiet_def idents_ok_def Let_def new_EventEmitter_def)
  have e: "bound_fresh (fst (construct_provider model w))"
    by (cases model) (simp_all add: bound_fresh_def Let_def new_EventEmitter_def)
  from a b c d e show ?thesis unfolding quiet_def by blast
qed

lemma fire_refresh_fst [simp]: "fst (fire_refresh w) = w"
  by (simp add: fire_refresh_def)

lemma subscribe_consistent:
  assumes "quiet w" and "bound_fresh w"
  shows "consistent (fst (subscribe_provider w))"
proof -
  from assms(2) obtain p prov where p: "provider (wrapper w) = Some p"
    and prov: "providers w p = Some prov" and nd: "\<not> disposed (onDidChangeTreeData prov)"
    by (auto simp add: bound_fresh_def)
  let ?w = "fst (subscribe_provider w)"
  have w5: "?w = w\<lparr>next_id := next_id w + 1,
      providers := (providers w)(p \<mapsto> map_emitter (subscribe (next_id w) Forward_to_onDidChange) prov),
      wrapper := (wrapper w)\<lparr>providerListener := Some (p, next_id w)\<rparr>\<rparr>"
    using p prov by (simp add: subscribe_provider_def)
  from assms(1) prov have empty: "listeners (onDidChangeTreeData prov) = []"
    by (auto simp add: quiet_def emitter_listeners_def split: option.splits dest: spec[of _ p])
  have a: "listeners_ok ?w"
    using assms(1) p prov nd empty
    by (auto simp add: w5 listeners_ok_def quiet_def emitter_listeners_def subscribe_def)
  have c: "model_listeners_ok ?w"
    using assms(1) p prov unfolding quiet_def model_listeners_ok_def w5
    by (cases prov) auto
  have d: "idents_ok ?w"
    using assms(1) p prov unfolding quiet_def idents_ok_def w5
    by auto
  from a c d show ?thesis by (simp add: consistent_def)
qed

lemma fst_update:
  "fst (update model w) =
     fst (subscribe_provider (fst (construct_provider model
       (fst (dispose_provider (fst (release_providerListener w)))))))"
  by (simp add: update_def split_beta Let_def)

lemma quiet_before_construct:
  assumes "consistent w"
  shows "quiet (fst (dispose_provider (fst (release_providerListener w)))) \<and>
         model_listeners (fst (dispose_provider (fst (release_providerListener w)))) = []"
  using assms by (simp add: release_quiet dispose_quiet)

lemma quiet_after_construct:
  assumes "consistent w"
  shows "quiet (fst (construct_provider model
           (fst (dispose_provider (fst (release_providerListener w)))))) \<and>
         bound_fresh (fst (construct_provider model
           (fst (dispose_provider (fst (release_providerListener w))))))"
  using quiet_before_construct [OF assms] by (simp add: construct_quiet)

lemma update_consistent:
  assumes "consistent w"
  shows "consistent (fst (update model w))"
  using quiet_after_construct [OF assms] by (simp add: fst_update subscribe_consistent)

lemma updates_consistent: "consistent w \<Longrightarrow> consistent (updates ms w)"
  by (induction ms arbitrary: w) (simp_all add: update_consistent)

subsection \<open>The emitter of the wrapper and the trace of \<^verbatim>\<open>update\<close>\<close>

lemma onDidChange_release [simp]:
  "onDidChange (wrapper (fst (release_providerListener w))) = onDidChange (wrapper w)"
  by (simp add: release_providerListener_def split: option.splits prod.splits)

lemma onDidChange_dispose [simp]:
  "onDidChange (wrapper (fst (dispose_provider w))) = onDidChange (wrapper w)"
  by (simp add: dispose_provider_def ReferencesProvider_dispose_def Let_def
      split: option.splits Provider.splits)

lemma onDidChange_construct [simp]:
  "onDidChange (wrapper (fst (construct_provider model w))) = onDidChange (wrapper w)"
  by (cases model) (simp_all add: Let_def)

lemma onDidChange_subscribe [simp]:
  "onDidChange (wrapper (fst (subscribe_provider w))) = onDidChange (wrapper w)"
  by (simp add: subscribe_provider_def split: option.splits)

lemma onDidChange_update: "onDidChange (wrapper (fst (update model w))) = onDidChange (wrapper w)"
  by (simp add: fst_update)

lemma onDidChange_updates: "onDidChange (wrapper (updates ms w)) = onDidChange (wrapper w)"
  by (induction ms arbitrary: w) (simp_all add: onDidChange_update)

lemma snd_update:
  "snd (update model w) =
     snd (release_providerListener w)
     @ snd (dispose_provider (fst (release_providerListener w)))
     @ snd (construct_provider model (fst (dispose_provider (fst (release_providerListener w)))))
     @ fire_onDidChange w Undefined
     @ snd (subscribe_provider (fst (construct_provider model
             (fst (dispose_provider (fst (release_providerListener w)))))))"
  by (simp add: update_def split_beta Let_def fire_refresh_def fire_onDidChange_def)

lemma fired_on_append [simp]: "fired_on i (xs @ ys) = fired_on i xs @ fired_on i ys"
  by (induction i xs rule: fired_on.induct) simp_all

lemma fired_on_Notify [simp]: "fired_on i (map (\<lambda>l. Notify (f l) e) ls) = []"
  by (induction ls) simp_all

lemma fired_on_fire_onDidChange:
  "fired_on i (fire_onDidChange w e) = (if i = ident (onDidChange (wrapper w)) then [e] else [])"
  by (simp add: fire_onDidChange_def)

lemma fired_on_release [simp]: "fired_on i (snd (release_providerListener w)) = []"
  by (simp add: release_providerListener_def split: option.splits prod.splits)

lemma fired_on_dispose [simp]: "fired_on i (snd (dispose_provider w)) = []"
  by (simp add: dispose_provider_def Let_def split: option.splits)

lemma fired_on_construct [simp]: "fired_on i (snd (construct_provider model w)) = []"
  by (cases model) (simp_all add: Let_def)

lemma fired_on_subscribe [simp]: "fired_on i (snd (subscribe_provider w)) = []"
  by (simp add: subscribe_provider_def split: option.splits)

lemma no_subscribe_before_fire:
  "Subscribe_provider q \<notin> set (snd (release_providerListener w)
     @ snd (dispose_provider (fst (release_providerListener w)))
     @ snd (construct_provider model (fst (dispose_provider (fst (release_providerListener w))))))"
proof -
  have a: "Subscribe_provider q \<notin> set (snd (release_providerListener v))" for v
    by (simp add: release_providerListener_def split: option.splits prod.splits)
  have b: "Subscribe_provider q \<notin> set (snd (dispose_provider v))" for v
    by (simp add: dispose_provider_def Let_def split: option.splits)
  have c: "Subscribe_provider q \<notin> set (snd (construct_provider model v))" for v
    by (cases model) (simp_all add: Let_def)
  from a b c show ?thesis by simp
qed

lemma construct_binds:
  "provider (wrapper (fst (construct_provider model w))) = Some (next_id w)"
  by (cases model) (simp_all add: Let_def)

lemma subscribe_trace:
  "provider (wrapper w) = Some p \<Longrightarrow>
   snd (subscribe_provider w) = [Subscribe_provider p] \<and>
   provider (wrapper (fst (subscribe_provider w))) = Some p \<and>
   providerListener (wrapper (fst (subscribe_provider w))) = Some (p, next_id w)"
  by (simp add: subscribe_provider_def)

text \<open>After \<^verbatim>\<open>update\<close> the active adapter has exactly the wrapper's listener on its stream.\<close>

lemma update_bound:
  assumes "consistent w"
  shows "\<exists>p s prov. provider (wrapper (fst (update model w))) = Some p \<and>
     providers (fst (update model w)) p = Some prov \<and>
     listeners (onDidChangeTreeData prov) = [(s, Forward_to_onDidChange)] \<and>
     ident (onDidChangeTreeData prov) \<noteq> ident (onDidChange (wrapper w))"
proof -
  let ?w3 = "fst (construct_provider model (fst (dispose_provider (fst (release_providerListener w)))))"
  let ?W = "fst (update model w)"
  obtain p where p: "provider (wrapper ?w3) = Some p" by (simp add: construct_binds)
  from subscribe_trace [OF p]
  have act: "provider (wrapper ?W) = Some p"
    and pl: "providerListener (wrapper ?W) = Some (p, next_id ?w3)"
    by (simp_all add: fst_update)
  have cons: "consistent ?W" using assms by (rule update_consistent)
  from cons pl have ls: "emitter_listeners ?W p = [(next_id ?w3, Forward_to_onDidChange)]"
    by (simp add: consistent_def listeners_ok_def)
  then obtain prov where prov: "providers ?W p = Some prov"
    and l: "listeners (onDidChangeTreeData prov) = [(next_id ?w3, Forward_to_onDidChange)]"
    by (auto simp add: emitter_listeners_def split: option.splits)
  from cons prov have "ident (onDidChangeTreeData prov) \<noteq> ident (onDidChange (wrapper ?W))"
    by (simp add: consistent_def idents_ok_def)
  then have "ident (onDidChangeTreeData prov) \<noteq> ident (onDidChange (wrapper w))"
    by (simp add: onDidChange_update)
  with act prov l show ?thesis by blast
qed

lemma model_listeners_subscribe [simp]:
  "model_listeners (fst (subscribe_provider w)) = model_listeners w"
  by (simp add: subscribe_provider_def split: option.splits)

lemma update_model_listeners:
  assumes "consistent w"
  shows "model_listeners (fst (update model w)) =
     (case model of
        Model_References m \<Rightarrow>
          [(next_id (fst (dispose_provider (fst (release_providerListener w)))) + 2, model_ref m,
            next_id (fst (dispose_provider (fst (release_providerListener w)))))]
      | Model_Calls m \<Rightarrow> []
      | Model_History h \<Rightarrow> [])"
  using quiet_before_construct [OF assms]
  by (cases model) (simp_all add: fst_update Let_def)

lemma update_provider:
  "provider (wrapper (fst (update model w))) =
     Some (next_id (fst (dispose_provider (fst (release_providerListener w)))))"
  using subscribe_trace [OF construct_binds] by (simp add: fst_update)

lemma fire_provider_bound:
  assumes "providers w p = Some prov"
    and "listeners (onDidChangeTreeData prov) = [(s, Forward_to_onDidChange)]"
  shows "fire_provider w p e = Fire (ident (onDidChangeTreeData prov)) e # fire_onDidChange w e"
  using assms by (simp add: fire_provider_def)

lemma fire_provider_quiet:
  assumes "quiet w"
  shows "fired_on (ident (onDidChange (wrapper w))) (fire_provider w p e) = []"
proof (cases "providers w p")
  case None
  then show ?thesis by (simp add: fire_provider_def)
next
  case (Some prov)
  from assms Some have "listeners (onDidChangeTreeData prov) = []"
    by (auto simp add: quiet_def emitter_listeners_def split: option.splits dest: spec[of _ p])
  moreover from assms Some
  have "ident (onDidChangeTreeData prov) \<noteq> ident (onDidChange (wrapper w))"
    by (simp add: quiet_def idents_ok_def)
  ultimately show ?thesis using Some by (simp add: fire_provider_def)
qed

lemma fired_on_concat_empty:
  "(\<And>x. x \<in> set xs \<Longrightarrow> fired_on i (f x) = []) \<Longrightarrow> fired_on i (concat (map f xs)) = []"
  by (induction xs) simp_all

lemma model_fire_quiet:
  assumes "quiet w"
  shows "fired_on (ident (onDidChange (wrapper w))) (model_fire w m e) = []"
  unfolding model_fire_def modelListener_def
  by (rule fired_on_concat_empty) (simp add: fire_provider_quiet [OF assms])

lemma update_states_nth:
  "update_states model w ! 2 = fst (dispose_provider (fst (release_providerListener w)))"
  "update_states model w ! 3 =
     fst (construct_provider model (fst (dispose_provider (fst (release_providerListener w)))))"
  "last (update_states model w) = fst (update model w)"
  by (simp_all add: update_states_def Let_def fst_update)

lemma model_listeners_ok_list_all:
  "model_listeners_ok s \<Longrightarrow>
   length (model_listeners s) \<le> 1 \<and>
   list_all (\<lambda>x. provider (wrapper s) = Some (snd (snd x))) (model_listeners s)"
  by (simp add: model_listeners_ok_def list_all_iff)

lemma updates_bound:
  "consistent w \<Longrightarrow> ms \<noteq> [] \<Longrightarrow>
   \<exists>p s prov. provider (wrapper (updates ms w)) = Some p \<and>
     providers (updates ms w) p = Some prov \<and>
     listeners (onDidChangeTreeData prov) = [(s, Forward_to_onDidChange)]"
proof (induction ms arbitrary: w)
  case Nil
  then show ?case by simp
next
  case (Cons model ms)
  show ?case
  proof (cases "ms = []")
    case True
    with update_bound [OF Cons.prems(1), of model] show ?thesis by auto
  next
    case False
    from Cons.prems(1) have "consistent (fst (update model w))" by (rule update_consistent)
    from Cons.IH [OF this False] show ?thesis by simp
  qed
qed

text \<open>
  Claim C1. In a call of \<^verbatim>\<open>update\<close> the emitter of the wrapper is fired exactly once, with
  no payload. The trace of the call is: some steps that neither fire nor subscribe, the
  refresh, its delivery to the callbacks of the tree view, and last the subscription to
  the stream of the adapter that is now active. In the store in which the refresh is
  fired no event of any model reaches the emitter of the wrapper.
\<close>

theorem update_fires_one_refresh_before_subscribing:
  assumes "consistent w"
  shows "fired_on (ident (onDidChange (wrapper w))) (snd (update model w)) = [Undefined] \<and>
    (\<exists>pre p. snd (update model w) =
        pre @ Fire (ident (onDidChange (wrapper w))) Undefined
            # map (\<lambda>l. Notify (snd l) Undefined) (listeners (onDidChange (wrapper w)))
            @ [Subscribe_provider p] \<and>
        provider (wrapper (fst (update model w))) = Some p \<and>
        (\<forall>q. Subscribe_provider q \<notin> set pre) \<and>
        fired_on (ident (onDidChange (wrapper w))) pre = []) \<and>
    (\<forall>m e. fired_on (ident (onDidChange (wrapper w)))
             (model_fire (update_states model w ! 3) m e) = [])"
proof -
  let ?w2 = "fst (dispose_provider (fst (release_providerListener w)))"
  let ?w3 = "fst (construct_provider model ?w2)"
  let ?pre = "snd (release_providerListener w)
     @ snd (dispose_provider (fst (release_providerListener w)))
     @ snd (construct_provider model ?w2)"
  have once: "fired_on (ident (onDidChange (wrapper w))) (snd (update model w)) = [Undefined]"
    by (simp add: snd_update fired_on_fire_onDidChange)
  have p: "provider (wrapper ?w3) = Some (next_id ?w2)" by (rule construct_binds)
  have t5: "snd (subscribe_provider ?w3) = [Subscribe_provider (next_id ?w2)]"
    using subscribe_trace [OF p] by simp
  have shape: "snd (update model w) =
      ?pre @ Fire (ident (onDidChange (wrapper w))) Undefined
           # map (\<lambda>l. Notify (snd l) Undefined) (listeners (onDidChange (wrapper w)))
           @ [Subscribe_provider (next_id ?w2)]"
    by (simp add: snd_update t5 fire_onDidChange_def)
  have nosub: "\<forall>q. Subscribe_provider q \<notin> set ?pre"
    using no_subscribe_before_fire by blast
  have nofire: "fired_on (ident (onDidChange (wrapper w))) ?pre = []" by simp
  have order: "\<exists>pre p. snd (update model w) =
        pre @ Fire (ident (onDidChange (wrapper w))) Undefined
            # map (\<lambda>l. Notify (snd l) Undefined) (listeners (onDidChange (wrapper w)))
            @ [Subscribe_provider p] \<and>
        provider (wrapper (fst (update model w))) = Some p \<and>
        (\<forall>q. Subscribe_provider q \<notin> set pre) \<and>
        fired_on (ident (onDidChange (wrapper w))) pre = []"
    using shape update_provider [of model w] nosub nofire by blast
  have "quiet ?w3" using quiet_after_construct [OF assms] by simp
  from model_fire_quiet [OF this]
  have silent: "\<forall>m e. fired_on (ident (onDidChange (wrapper w)))
             (model_fire (update_states model w ! 3) m e) = []"
    by (simp add: update_states_nth)
  from once order silent show ?thesis by blast
qed

text \<open>
  Claim C2. Once a references model is bound, a change event of that model puts exactly
  one event on the change stream of the search-results adapter, and the same on the
  emitter of the wrapper: the payload itself when it is a \<^verbatim>\<open>FileItem\<close>, no payload
  otherwise.
\<close>

theorem ReferencesProvider_forwards_model_events:
  assumes "consistent w"
  shows "\<exists>i. active_emitter (fst (update (Model_References model) w)) = Some i \<and>
     fired_on i (model_fire (fst (update (Model_References model) w)) (model_ref model) e)
       = [if instanceof_FileItem e then e else Undefined] \<and>
     fired_on (ident (onDidChange (wrapper w)))
        (model_fire (fst (update (Model_References model) w)) (model_ref model) e)
       = [if instanceof_FileItem e then e else Undefined]"
proof -
  let ?W = "fst (update (Model_References model) w)"
  let ?n = "next_id (fst (dispose_provider (fst (release_providerListener w))))"
  let ?e = "if instanceof_FileItem e then e else Undefined"
  from update_bound [OF assms, of "Model_References model"]
  obtain p s prov where act: "provider (wrapper ?W) = Some p"
    and prov: "providers ?W p = Some prov"
    and ls: "listeners (onDidChangeTreeData prov) = [(s, Forward_to_onDidChange)]"
    and ne: "ident (onDidChangeTreeData prov) \<noteq> ident (onDidChange (wrapper w))"
    by blast
  have pn: "p = ?n" using act update_provider [of "Model_References model" w] by simp
  have ml: "model_listeners ?W = [(?n + 2, model_ref model, ?n)]"
    using update_model_listeners [OF assms, of "Model_References model"] by simp
  have "model_fire ?W (model_ref model) e = fire_provider ?W p ?e"
    by (simp add: model_fire_def ml modelListener_def pn)
  also have "\<dots> = Fire (ident (onDidChangeTreeData prov)) ?e # fire_onDidChange ?W ?e"
    using prov ls by (rule fire_provider_bound)
  finally have tr: "model_fire ?W (model_ref model) e =
      Fire (ident (onDidChangeTreeData prov)) ?e # fire_onDidChange ?W ?e" .
  have a: "active_emitter ?W = Some (ident (onDidChangeTreeData prov))"
    using act prov by (simp add: active_emitter_def)
  have b: "fired_on (ident (onDidChangeTreeData prov)) (model_fire ?W (model_ref model) e) = [?e]"
    using ne by (simp add: tr fired_on_fire_onDidChange onDidChange_update)
  have c: "fired_on (ident (onDidChange (wrapper w))) (model_fire ?W (model_ref model) e) = [?e]"
    using ne by (simp add: tr fired_on_fire_onDidChange onDidChange_update)
  from a b c show ?thesis by blast
qed

text \<open>
  Claim C5, as the code has it. The call-hierarchy adapter offers the stream of an emitter
  of its own and registers no listener on the calls model: once a calls model is bound,
  no listener is registered on any model, and a change event of any model, with any
  payload, puts nothing on the stream of the adapter nor anywhere else.
\<close>

theorem CallItemDataProvider_stream_is_silent:
  assumes "consistent w"
  shows "(\<exists>i. active_emitter (fst (update (Model_Calls model) w)) = Some i) \<and>
     model_listeners (fst (update (Model_Calls model) w)) = [] \<and>
     model_fire (fst (update (Model_Calls model) w)) m e = []"
proof -
  from update_bound [OF assms, of "Model_Calls model"]
  have a: "\<exists>i. active_emitter (fst (update (Model_Calls model) w)) = Some i"
    by (auto simp add: active_emitter_def)
  have b: "model_listeners (fst (update (Model_Calls model) w)) = []"
    using update_model_listeners [OF assms, of "Model_Calls model"] by simp
  then have c: "model_fire (fst (update (Model_Calls model) w)) m e = []"
    by (simp add: model_fire_def)
  from a b c show ?thesis by blast
qed

text \<open>
  Claim C6. Over any sequence of calls of \<^verbatim>\<open>update\<close> the emitter of the wrapper stays
  the same object with the same listeners, and after the last call every event on the
  stream of the active adapter fires that emitter with the same payload, which reaches
  each callback the tree view had registered at the start.
\<close>

theorem onDidChange_never_replaced:
  assumes "consistent w" and "ms \<noteq> []"
  shows "onDidChange (wrapper (updates ms w)) = onDidChange (wrapper w) \<and>
     (\<exists>p prov. provider (wrapper (updates ms w)) = Some p \<and>
        providers (updates ms w) p = Some prov \<and>
        (\<forall>e. fire_provider (updates ms w) p e =
              Fire (ident (onDidChangeTreeData prov)) e
                # Fire (ident (onDidChange (wrapper w))) e
                # map (\<lambda>l. Notify (snd l) e) (listeners (onDidChange (wrapper w)))))"
proof -
  from updates_bound [OF assms]
  obtain p s prov where act: "provider (wrapper (updates ms w)) = Some p"
    and prov: "providers (updates ms w) p = Some prov"
    and ls: "listeners (onDidChangeTreeData prov) = [(s, Forward_to_onDidChange)]"
    by blast
  have "fire_provider (updates ms w) p e =
          Fire (ident (onDidChangeTreeData prov)) e
            # Fire (ident (onDidChange (wrapper w))) e
            # map (\<lambda>l. Notify (snd l) e) (listeners (onDidChange (wrapper w)))" for e
    using fire_provider_bound [OF prov ls, of e]
    by (simp add: fire_onDidChange_def onDidChange_updates)
  with act prov onDidChange_updates [of ms w] show ?thesis by blast
qed

text \<open>
  Claim C7. The wrapper has one slot for the active adapter. Before, between and after the
  five statements of \<^verbatim>\<open>update\<close>, at most one listener is registered on a model and it belongs
  to the adapter in the slot. After the first two statements, before the new adapter is
  constructed, no listener is registered on any model, the wrapper holds no subscription
  and no adapter has a listener on its stream. The store after the call is consistent
  again, so the same holds for the next call.
\<close>

theorem one_adapter_subscribed:
  assumes "consistent w"
  shows "list_all (\<lambda>s. length (model_listeners s) \<le> 1 \<and>
             list_all (\<lambda>x. provider (wrapper s) = Some (snd (snd x))) (model_listeners s))
           (update_states model w) \<and>
    model_listeners (update_states model w ! 2) = [] \<and>
    providerListener (wrapper (update_states model w ! 2)) = None \<and>
    (\<forall>p. emitter_listeners (update_states model w ! 2) p = []) \<and>
    last (update_states model w) = fst (update model w) \<and>
    consistent (fst (update model w))"
proof -
  let ?w1 = "fst (release_providerListener w)"
  let ?w2 = "fst (dispose_provider ?w1)"
  let ?w3 = "fst (construct_provider model ?w2)"
  let ?w5 = "fst (subscribe_provider ?w3)"
  let ?P = "\<lambda>s. length (model_listeners s) \<le> 1 \<and>
             list_all (\<lambda>x. provider (wrapper s) = Some (snd (snd x))) (model_listeners s)"
  have q2: "quiet ?w2" and e2: "model_listeners ?w2 = []"
    using quiet_before_construct [OF assms] by simp_all
  have c5: "consistent ?w5" using update_consistent [OF assms, of model] by (simp add: fst_update)
  have s0: "?P w"
    using assms by (intro model_listeners_ok_list_all) (simp add: consistent_def)
  have s1: "?P ?w1"
    using release_quiet [OF assms] by (intro model_listeners_ok_list_all) (simp add: quiet_def)
  have s2: "?P ?w2"
    using q2 by (intro model_listeners_ok_list_all) (simp add: quiet_def)
  have s3: "?P ?w3"
    using quiet_after_construct [OF assms, of model]
    by (intro model_listeners_ok_list_all) (simp add: quiet_def)
  have s5: "?P ?w5"
    using c5 by (intro model_listeners_ok_list_all) (simp add: consistent_def)
  have all: "list_all ?P (update_states model w)"
    using s0 s1 s2 s3 s5 by (simp add: update_states_def Let_def)
  have mid: "model_listeners (update_states model w ! 2) = [] \<and>
    providerListener (wrapper (update_states model w ! 2)) = None \<and>
    (\<forall>p. emitter_listeners (update_states model w ! 2) p = [])"
    using q2 e2 by (simp add: update_states_nth quiet_def)
  from all mid update_states_nth(3) [of model w] update_consistent [OF assms, of model]
  show ?thesis by blast
qed

subsection \<open>The properties on sample stores\<close>

lemmas store_defs =
  update_def update_states_def release_providerListener_def dispose_provider_def
  ReferencesProvider_dispose_def fire_refresh_def fire_onDidChange_def subscribe_provider_def
  fire_provider_def modelListener_def model_fire_def active_emitter_def emitter_listeners_def
  host_subscribe_def init_def new_EventEmitter_def subscribe_def unsubscribe_def
  EventEmitter_dispose_def Let_def
  sample_world_def sample_ReferencesModel_def sample_CallsModel_def

lemma consistent_sample_world: "consistent sample_world"
  unfolding sample_world_def by (intro consistent_host_subscribe consistent_init)

theorem update_fires_one_refresh_before_subscribing_witness:
  "consistent (fst (update (Model_References sample_ReferencesModel) sample_world)) \<and>
   snd (update (Model_History [sample_HistoryItem])
          (fst (update (Model_References sample_ReferencesModel) sample_world)))
     = [Dispose_providerListener 2, Dispose_provider 2, New_provider 6,
        Fire 0 Undefined, Notify 100 Undefined, Subscribe_provider 6] \<and>
   fired_on 0 (snd (update (Model_History [sample_HistoryItem])
          (fst (update (Model_References sample_ReferencesModel) sample_world)))) = [Undefined] \<and>
   fired_on 0 (model_fire (update_states (Model_History [sample_HistoryItem])
          (fst (update (Model_References sample_ReferencesModel) sample_world)) ! 3) 50 Undefined) = []"
proof -
  have h: "consistent (fst (update (Model_References sample_ReferencesModel) sample_world))"
    using consistent_sample_world by (rule update_consistent)
  show ?thesis
    using h update_fires_one_refresh_before_subscribing [OF h, of "Model_History [sample_HistoryItem]"]
    by (simp add: store_defs)
qed

theorem ReferencesProvider_forwards_model_events_witness:
  "consistent sample_world \<and>
   active_emitter (fst (update (Model_References sample_ReferencesModel) sample_world)) = Some 3 \<and>
   fired_on 3 (model_fire (fst (update (Model_References sample_ReferencesModel) sample_world))
                 50 (Elem (FileElem sample_FileItem))) = [Elem (FileElem sample_FileItem)] \<and>
   fired_on 3 (model_fire (fst (update (Model_References sample_ReferencesModel) sample_world))
                 50 (Other 50)) = [Undefined] \<and>
   fired_on 0 (model_fire (fst (update (Model_References sample_ReferencesModel) sample_world))
                 50 (Elem (ReferenceElem sample_ReferenceItem))) = [Undefined]"
  using consistent_sample_world
    ReferencesProvider_forwards_model_events [OF consistent_sample_world,
      of sample_ReferencesModel "Elem (FileElem sample_FileItem)"]
    ReferencesProvider_forwards_model_events [OF consistent_sample_world,
      of sample_ReferencesModel "Other 50"]
    ReferencesProvider_forwards_model_events [OF consistent_sample_world,
      of sample_ReferencesModel "Elem (ReferenceElem sample_ReferenceItem)"]
  by (simp add: store_defs)

theorem CallItemDataProvider_stream_is_silent_witness:
  "consistent sample_world \<and>
   active_emitter (fst (update (Model_Calls sample_CallsModel) sample_world)) = Some 3 \<and>
   model_listeners (fst (update (Model_Calls sample_CallsModel) sample_world)) = [] \<and>
   model_fire (fst (update (Model_Calls sample_CallsModel) sample_world)) 60 Undefined = []"
  using consistent_sample_world
    CallItemDataProvider_stream_is_silent [OF consistent_sample_world, of sample_CallsModel 60 Undefined]
  by (simp add: store_defs)

text \<open>
  Claim C5 as stated fails: the calls model fires a change for a call item and nothing
  appears on the stream of the call-hierarchy adapter (emitter 3), nor on the emitter of
  the wrapper (emitter 0).
\<close>

theorem CallItemDataProvider_forward_counterexample:
  "active_emitter (fst (update (Model_Calls sample_CallsModel) sample_world)) = Some 3 \<and>
   fired_on 3 (model_fire (fst (update (Model_Calls sample_CallsModel) sample_world))
                 (calls_ref sample_CallsModel) (Elem (CallElem sample_CallItem))) = [] \<and>
   fired_on 3 (model_fire (fst (update (Model_Calls sample_CallsModel) sample_world))
                 (calls_ref sample_CallsModel) (Elem (CallElem sample_CallItem)))
     \<noteq> [Elem (CallElem sample_CallItem)] \<and>
   fired_on 0 (model_fire (fst (update (Model_Calls sample_CallsModel) sample_world))
                 (calls_ref sample_CallsModel) (Elem (CallElem sample_CallItem))) = []"
  by (simp add: store_defs)

theorem onDidChange_never_replaced_witness:
  "consistent sample_world \<and>
   onDidChange (wrapper (updates [Model_References sample_ReferencesModel,
       Model_Calls sample_CallsModel, Model_History [sample_HistoryItem]] sample_world))
     = \<lparr>ident = 0, listeners = [(1, 100)], disposed = False\<rparr> \<and>
   provider (wrapper (updates [Model_References sample_ReferencesModel,
       Model_Calls sample_CallsModel, Model_History [sample_HistoryItem]] sample_world)) = Some 9 \<and>
   fire_provider (updates [Model_References sample_ReferencesModel,
       Model_Calls sample_CallsModel, Model_History [sample_HistoryItem]] sample_world) 9
       (Elem (HistoryElem sample_HistoryItem))
     = [Fire 10 (Elem (HistoryElem sample_HistoryItem)),
        Fire 0 (Elem (HistoryElem sample_HistoryItem)),
        Notify 100 (Elem (HistoryElem sample_HistoryItem))]"
proof -
  have ne: "[Model_References sample_ReferencesModel, Model_Calls sample_CallsModel,
             Model_History [sample_HistoryItem]] \<noteq> []" by simp
  show ?thesis
    using consistent_sample_world onDidChange_never_replaced [OF consistent_sample_world ne]
    by (simp add: store_defs)
qed

theorem one_adapter_subscribed_witness:
  "consistent (fst (update (Model_References sample_ReferencesModel) sample_world)) \<and>
   map (\<lambda>s. length (model_listeners s))
     (update_states (Model_Calls sample_CallsModel)
        (fst (update (Model_References sample_ReferencesModel) sample_world)))
     = [1, 1, 0, 0, 0, 0] \<and>
   map (\<lambda>s. provider (wrapper s))
     (update_states (Model_Calls sample_CallsModel)
        (fst (update (Model_References sample_ReferencesModel) sample_world)))
     = [Some 2, Some 2, None, Some 6, Some 6, Some 6] \<and>
   consistent (fst (update (Model_Calls sample_CallsModel)
        (fst (update (Model_References sample_ReferencesModel) sample_world))))"
proof -
  have h: "consistent (fst (update (Model_References sample_ReferencesModel) sample_world))"
    using consistent_sample_world by (rule update_consistent)
  show ?thesis
    using h one_adapter_subscribed [OF h, of "Model_Calls sample_CallsModel"]
    by (simp add: store_defs)
qed


end
